theory Spec2Isabelle
  imports Complex_Main "HOL-Library.Sublist"
begin

section \<open>Array helpers\<close>

text \<open>
  \<^verbatim>\<open>Array.prototype.reduce\<close> with the three-argument callback
  \<^verbatim>\<open>(acc, element, index)\<close>: the array is walked from index 0 upwards and the
  accumulator is threaded through. \<open>reduce_from\<close> carries the running index.
\<close>

fun reduce_from :: "('b \<Rightarrow> 'a \<Rightarrow> nat \<Rightarrow> 'b) \<Rightarrow> 'b \<Rightarrow> nat \<Rightarrow> 'a list \<Rightarrow> 'b" where
  "reduce_from f acc idx [] = acc"
| "reduce_from f acc idx (x # xs) = reduce_from f (f acc x idx) (Suc idx) xs"

definition reduce :: "'a list \<Rightarrow> ('b \<Rightarrow> 'a \<Rightarrow> nat \<Rightarrow> 'b) \<Rightarrow> 'b \<Rightarrow> 'b" where
  "reduce xs f init = reduce_from f init 0 xs"



section \<open>Quiz screen (app/quiz.tsx)\<close>

text \<open>
  A quiz question as declared in \<^verbatim>\<open>ApiData.quiz\<close>:
  \<^verbatim>\<open>{ question: string; options: string[]; answer: string; explanation?: string }\<close>.
\<close>

record question =
  question :: string
  options :: "string list"
  answer :: string
  explanation :: "string option"

text \<open>
  \<^verbatim>\<open>answers: Record<number, string>\<close>: a key that was never written reads as
  \<^verbatim>\<open>undefined\<close>, which is \<open>None\<close> here.
\<close>

type_synonym answers = "nat \<rightharpoonup> string"

text \<open>
  \<^verbatim>\<open>
  const calculateScore = (currentAnswers: Record<number, string>) => {
    return quiz.reduce((acc: number, q: any, idx: number) => {
      return currentAnswers[idx] === q.answer ? acc + 1 : acc;
    }, 0);
  };
  \<close>
  The strict equality of \<^verbatim>\<open>currentAnswers[idx]\<close> (a string or
  \<^verbatim>\<open>undefined\<close>) with the string \<^verbatim>\<open>q.answer\<close> holds exactly when the key is
  present and holds that string.
\<close>

definition calculateScore :: "question list \<Rightarrow> answers \<Rightarrow> nat" where
  "calculateScore quiz currentAnswers =
     reduce quiz (\<lambda>acc q idx. if currentAnswers idx = Some (answer q) then acc + 1 else acc) 0"

text \<open>
  The component state of the quiz screen that the tap handler touches, and the calls of
  the state setters it makes, in order.
\<close>

record quiz_state =
  answers :: answers
  score :: nat

datatype set_state = SetAnswers answers | SetScore nat

fun apply_set_state :: "quiz_state \<Rightarrow> set_state \<Rightarrow> quiz_state" where
  "apply_set_state s (SetAnswers a) = s\<lparr>answers := a\<rparr>"
| "apply_set_state s (SetScore n) = s\<lparr>score := n\<rparr>"

fun is_SetScore :: "set_state \<Rightarrow> bool" where
  "is_SetScore (SetScore n) = True"
| "is_SetScore (SetAnswers a) = False"

text \<open>
  \<^verbatim>\<open>
  const selectOption = (qIdx: number, opt: string) => {
    const newAnswers = { ...answers, [qIdx]: opt };
    setAnswers(newAnswers);
    const newScore = calculateScore(newAnswers);
    setScore(newScore);
  };
  \<close>
  \<open>selectOption_calls\<close> is the sequence of setter calls of one tap;
  \<open>selectOption\<close> is the state after React has applied them.
\<close>

definition selectOption_calls :: "question list \<Rightarrow> nat \<Rightarrow> string \<Rightarrow> quiz_state \<Rightarrow> set_state list" where
  "selectOption_calls quiz qIdx opt s =
     (let newAnswers = (answers s)(qIdx \<mapsto> opt);
          newScore = calculateScore quiz newAnswers
      in [SetAnswers newAnswers, SetScore newScore])"

definition selectOption :: "question list \<Rightarrow> nat \<Rightarrow> string \<Rightarrow> quiz_state \<Rightarrow> quiz_state" where
  "selectOption quiz qIdx opt s = foldl apply_set_state s (selectOption_calls quiz qIdx opt s)"

section \<open>Revision quiz screen (app/revision-quiz.tsx)\<close>

text \<open>
  \<^verbatim>\<open>String(idx)\<close> for an array index: its decimal numeral.
\<close>

definition digit_char :: "nat \<Rightarrow> char" where
  "digit_char d = char_of (48 + d)"

function String_of_nat :: "nat \<Rightarrow> string" where
  "String_of_nat n =
     (if n < 10 then [digit_char n] else String_of_nat (n div 10) @ [digit_char (n mod 10)])"
  by pat_completeness auto
termination
  by (relation "measure id") auto

declare String_of_nat.simps [simp del]

text \<open>
  One entry of \<^verbatim>\<open>quiz_stats.per_question\<close>. The counters come from JSON; a field
  that is missing or \<^verbatim>\<open>null\<close> is \<open>None\<close>, and the code reads it through
  \<^verbatim>\<open>?? 0\<close>.
\<close>

record question_stats =
  attempts :: "int option"
  correct :: "int option"
  skipped :: "int option"

definition nullish_or :: "'a option \<Rightarrow> 'a \<Rightarrow> 'a" where
  "nullish_or v d = (case v of None \<Rightarrow> d | Some x \<Rightarrow> x)"

text \<open>
  The body of the \<^verbatim>\<open>forEach\<close> callback, with the array \<^verbatim>\<open>revisionIndices\<close> it
  pushes to passed through:
  \<^verbatim>\<open>
  const statsForQ = perQuestionStats[String(idx)];
  if (!statsForQ) return;
  const attempts = statsForQ.attempts ?? 0;
  const correct = statsForQ.correct ?? 0;
  if (attempts === 0) return;
  const accuracy = attempts > 0 ? correct / attempts : 0;
  const needsRevision =
    (attempts >= 1 && correct === 0) || (attempts >= 3 && accuracy < 0.5);
  if (needsRevision && idx >= 0 && idx < allQuiz.length) {
    revisionIndices.push(idx);
  }
  \<close>
  The quotient is taken in the reals. For integer counters below \<open>2^53\<close> the
  double-precision quotient is below one half exactly when the real one is.
\<close>

definition revision_visit ::
  "nat \<Rightarrow> (string \<rightharpoonup> question_stats) \<Rightarrow> nat list \<Rightarrow> question \<Rightarrow> nat \<Rightarrow> nat list" where
  "revision_visit allQuiz_length perQuestionStats revisionIndices q idx =
     (case perQuestionStats (String_of_nat idx) of
        None \<Rightarrow> revisionIndices
      | Some statsForQ \<Rightarrow>
          (let attempts' = nullish_or (attempts statsForQ) 0;
               correct' = nullish_or (correct statsForQ) 0
           in if attempts' = 0 then revisionIndices
              else
                (let accuracy = (if attempts' > 0 then real_of_int correct' / real_of_int attempts' else 0);
                     needsRevision =
                       ((attempts' \<ge> 1 \<and> correct' = 0) \<or> (attempts' \<ge> 3 \<and> accuracy < 0.5))
                 in if needsRevision \<and> 0 \<le> idx \<and> idx < allQuiz_length
                    then revisionIndices @ [idx] else revisionIndices)))"

text \<open>
  \<^verbatim>\<open>allQuiz.forEach(...)\<close> starting from the empty \<^verbatim>\<open>revisionIndices\<close>: a walk
  from index 0 upwards that threads the array being filled.
\<close>

definition revisionIndices :: "question list \<Rightarrow> (string \<rightharpoonup> question_stats) \<Rightarrow> nat list" where
  "revisionIndices allQuiz perQuestionStats =
     reduce allQuiz (revision_visit (length allQuiz) perQuestionStats) []"

text \<open>
  Reading an array element: out of range JavaScript yields \<^verbatim>\<open>undefined\<close>.
\<close>

definition at_index :: "'a list \<Rightarrow> nat \<Rightarrow> 'a option" where
  "at_index xs i = (if i < length xs then Some (xs ! i) else None)"

text \<open>
  \<^verbatim>\<open>const revisionQuiz = revisionIndices.map((i) => allQuiz[i]);\<close>
\<close>

definition revisionQuiz :: "question list \<Rightarrow> (string \<rightharpoonup> question_stats) \<Rightarrow> question option list" where
  "revisionQuiz allQuiz perQuestionStats =
     map (\<lambda>i. at_index allQuiz i) (revisionIndices allQuiz perQuestionStats)"

text \<open>
  The condition of the specification for a question to need revision, from its two
  counters.
\<close>

definition flagged_by_spec :: "int \<Rightarrow> int \<Rightarrow> bool" where
  "flagged_by_spec a c =
     ((a \<ge> 1 \<and> c = 0) \<or> (a \<ge> 3 \<and> real_of_int c / real_of_int a < 1 / 2))"

text \<open>
  Whether the statistics stored under \<^verbatim>\<open>String(idx)\<close> make the callback push
  \<open>idx\<close>, for an index inside the quiz.
\<close>

definition needs_revision :: "(string \<rightharpoonup> question_stats) \<Rightarrow> nat \<Rightarrow> bool" where
  "needs_revision perQuestionStats idx =
     (case perQuestionStats (String_of_nat idx) of
        None \<Rightarrow> False
      | Some statsForQ \<Rightarrow>
          nullish_or (attempts statsForQ) 0 \<noteq> 0 \<and>
          flagged_by_spec (nullish_or (attempts statsForQ) 0) (nullish_or (correct statsForQ) 0))"

section \<open>Shared context (app/StudyContext.tsx) and home screen (app/home.tsx)\<close>

text \<open>
  \<^verbatim>\<open>FileInfo\<close>; the field \<^verbatim>\<open>size\<close> is \<open>size_bytes\<close> here, and the opaque browser
  \<^verbatim>\<open>File\<close> object is a handle.
\<close>

record file_info =
  uri :: string
  name :: string
  size_bytes :: nat
  mimeType :: string
  fileObject :: "string option"

text \<open>
  The state of \<^verbatim>\<open>StudyProvider\<close>. \<open>'j\<close> is the parsed JSON of a study material,
  \<open>'v\<close> a video entry. The material is a single nullable slot.
\<close>

record ('j, 'v) study_ctx =
  fileInfo :: "file_info option"
  uploading :: bool
  apiData :: "'j option"
  videoResults :: "'v list"
  videoLoading :: bool
  videoError :: "string option"

definition initial_ctx :: "('j, 'v) study_ctx" where
  "initial_ctx =
     \<lparr>fileInfo = None, uploading = False, apiData = None,
      videoResults = [], videoLoading = False, videoError = None\<rparr>"

text \<open>
  The trace of a handler, in program order: the alerts it shows, the navigation, the
  requests it issues, and its calls of \<^verbatim>\<open>setUploading\<close>.
\<close>

datatype endpoint = STUDY_URL | MOCK_TEST_URL

datatype effect = Alert string string | RouterPush string | Fetch endpoint | SetUploading bool

fun is_Fetch :: "effect \<Rightarrow> bool" where
  "is_Fetch (Fetch url) = True"
| "is_Fetch e = False"

text \<open>
  A thrown value, by the two renderings the handlers use: \<^verbatim>\<open>e?.message\<close> and
  \<^verbatim>\<open>String(e)\<close>.
\<close>

record exn =
  message :: "string option"
  as_string :: string

text \<open>
  How the awaited request ends: some \<^verbatim>\<open>await\<close> inside the \<^verbatim>\<open>try\<close> throws, or
  a response arrives with \<^verbatim>\<open>resp.ok\<close>, \<^verbatim>\<open>resp.status\<close> and a body that parses as
  JSON (\<open>Inr\<close>) or makes the parser throw (\<open>Inl\<close>).
\<close>

datatype 'j fetch_result = Threw exn | Response bool nat "exn + 'j"

text \<open>
  The failures of a request: a transport error, a body that is not JSON, a status
  outside 2xx.
\<close>

fun request_failed :: "'j fetch_result \<Rightarrow> bool" where
  "request_failed (Threw err) = True"
| "request_failed (Response ok status (Inl e)) = True"
| "request_failed (Response ok status (Inr json)) = (\<not> ok)"

text \<open>
  \<^verbatim>\<open>
  const onRemoveFile = () => {
    setFileInfo(null);
    setApiData(null);
    setVideoResults([]);
    setVideoError(null);
  };
  \<close>
\<close>

definition onRemoveFile :: "('j, 'v) study_ctx \<Rightarrow> ('j, 'v) study_ctx" where
  "onRemoveFile c = c\<lparr>fileInfo := None, apiData := None, videoResults := [], videoError := None\<rparr>"

text \<open>
  \<^verbatim>\<open>pickFile\<close>, by what the document picker returns: the dialog is cancelled, it
  returns no asset, it returns a file, or it throws.
\<close>

datatype pick_result = Canceled | NoAsset | Picked file_info | PickThrew exn

fun pickFile :: "pick_result \<Rightarrow> ('j, 'v) study_ctx \<Rightarrow> ('j, 'v) study_ctx \<times> effect list" where
  "pickFile Canceled c = (c, [])"
| "pickFile NoAsset c = (c, [Alert ''No file selected'' ''Please choose a PDF file.''])"
| "pickFile (Picked selected) c =
     (c\<lparr>fileInfo := Some selected, apiData := None, videoResults := [], videoError := None\<rparr>, [])"
| "pickFile (PickThrew err) c = (c, [Alert ''File pick failed'' (as_string err)])"

text \<open>
  \<^verbatim>\<open>upload\<close> up to its first \<^verbatim>\<open>await\<close>. \<open>user\<close> is \<^verbatim>\<open>user?.id\<close>. The result
  says whether the handler went on into its \<^verbatim>\<open>try\<close> block.
  \<^verbatim>\<open>
  if (!fileInfo) { Alert.alert("No file", "Please pick a PDF first."); return; }
  if (!user?.id) { Alert.alert("Not logged in", "..."); }
  setUploading(true);
  try { ...
  \<close>
\<close>

definition upload_start ::
  "string option \<Rightarrow> ('j, 'v) study_ctx \<Rightarrow> ('j, 'v) study_ctx \<times> effect list \<times> bool" where
  "upload_start user c =
     (if fileInfo c = None then (c, [Alert ''No file'' ''Please pick a PDF first.''], False)
      else
        (c\<lparr>uploading := True\<rparr>,
         (if user = None
          then [Alert ''Not logged in'' ''We couldn't find your account. Please log in again.'']
          else []) @ [SetUploading True],
         True))"

text \<open>
  The rest of \<^verbatim>\<open>upload\<close>, once the request has ended (\<open>upload_body\<close>); the
  \<^verbatim>\<open>finally\<close> block runs on every path (\<open>upload_finish\<close>, below).
  \<^verbatim>\<open>
    const text = await resp.text();
    let json: any;
    try { json = JSON.parse(text); }
    catch (e) { Alert.alert("Error", "Server returned non-JSON response"); return; }
    if (!resp.ok) { Alert.alert("Upload failed", `Status ${resp.status}`); return; }
    setApiData(json); setVideoResults([]); setVideoError(null);
    router.push("/summary");
  } catch (err: any) { Alert.alert("Upload error", String(err)); }
  finally { setUploading(false); }
  \<close>
\<close>

fun upload_body :: "'j fetch_result \<Rightarrow> ('j, 'v) study_ctx \<Rightarrow> ('j, 'v) study_ctx \<times> effect list" where
  "upload_body (Threw err) c = (c, [Alert ''Upload error'' (as_string err)])"
| "upload_body (Response ok status (Inl e)) c =
     (c, [Alert ''Error'' ''Server returned non-JSON response''])"
| "upload_body (Response ok status (Inr json)) c =
     (if \<not> ok then (c, [Alert ''Upload failed'' (''Status '' @ String_of_nat status)])
      else (c\<lparr>apiData := Some json, videoResults := [], videoError := None\<rparr>,
            [RouterPush ''/summary'']))"

text \<open>
  How the \<^verbatim>\<open>try\<close> block of \<^verbatim>\<open>upload\<close> goes. In a browser, when the picked file
  carries no \<^verbatim>\<open>File\<close> object, the form data is built from
  \<^verbatim>\<open>await fetch(fileInfo.uri).then((r) => r.blob())\<close>, which may throw before the
  request is issued (\<open>BlobThrew\<close>). Otherwise \<^verbatim>\<open>fetch(STUDY_URL, ...)\<close> is issued
  and ends as a \<open>fetch_result\<close>.
\<close>

datatype 'j upload_outcome = BlobThrew exn | Requested "'j fetch_result"

fun upload_failed :: "'j upload_outcome \<Rightarrow> bool" where
  "upload_failed (BlobThrew err) = True"
| "upload_failed (Requested res) = request_failed res"

fun upload_finish :: "'j upload_outcome \<Rightarrow> ('j, 'v) study_ctx \<Rightarrow> ('j, 'v) study_ctx \<times> effect list" where
  "upload_finish (BlobThrew err) c =
     (c\<lparr>uploading := False\<rparr>, [Alert ''Upload error'' (as_string err), SetUploading False])"
| "upload_finish (Requested res) c =
     (let (c', effects) = upload_body res c
      in (c'\<lparr>uploading := False\<rparr>, [Fetch STUDY_URL] @ effects @ [SetUploading False]))"

text \<open>One whole run of \<^verbatim>\<open>upload\<close> with nothing else happening in between.\<close>

definition upload ::
  "string option \<Rightarrow> 'j upload_outcome \<Rightarrow> ('j, 'v) study_ctx \<Rightarrow> ('j, 'v) study_ctx \<times> effect list" where
  "upload user outcome c =
     (let (c1, effects1, started) = upload_start user c
      in if started
         then (let (c2, effects2) = upload_finish outcome c1 in (c2, effects1 @ effects2))
         else (c1, effects1))"

text \<open>
  The upload button: \<^verbatim>\<open>disabled={!fileInfo || uploading}\<close>.
\<close>

definition upload_disabled :: "('j, 'v) study_ctx \<Rightarrow> bool" where
  "upload_disabled c = (fileInfo c = None \<or> uploading c)"

text \<open>
  The home screen as a transition system. \<open>outstanding\<close> counts the runs of
  \<^verbatim>\<open>upload\<close> that have entered their \<^verbatim>\<open>try\<close> block and have not ended yet.
  Each handler runs on the state the previous events left. The pick button is rendered
  only while no file is selected, the remove button only while one is; a disabled
  upload button does not call its handler.
\<close>

record ('j, 'v) home =
  ctx :: "('j, 'v) study_ctx"
  user :: "string option"
  outstanding :: nat

inductive home_step :: "('j, 'v) home \<Rightarrow> ('j, 'v) home \<Rightarrow> bool" where
  press_upload:
    "\<not> upload_disabled (ctx h) \<Longrightarrow> upload_start (user h) (ctx h) = (c', effects, started) \<Longrightarrow>
     home_step h (h\<lparr>ctx := c', outstanding := outstanding h + (if started then 1 else 0)\<rparr>)"
| upload_ends:
    "outstanding h > 0 \<Longrightarrow>
     home_step h (h\<lparr>ctx := fst (upload_finish outcome (ctx h)), outstanding := outstanding h - 1\<rparr>)"
| press_pick:
    "fileInfo (ctx h) = None \<Longrightarrow> home_step h (h\<lparr>ctx := fst (pickFile r (ctx h))\<rparr>)"
| press_remove:
    "fileInfo (ctx h) \<noteq> None \<Longrightarrow> home_step h (h\<lparr>ctx := onRemoveFile (ctx h)\<rparr>)"
| set_user:
    "home_step h (h\<lparr>user := u\<rparr>)"

inductive reachable :: "('j, 'v) home \<Rightarrow> bool" where
  start: "reachable \<lparr>ctx = initial_ctx, user = None, outstanding = 0\<rparr>"
| step: "reachable h \<Longrightarrow> home_step h h' \<Longrightarrow> reachable h'"

section \<open>Mock test builder (app/mock-test.tsx)\<close>

text \<open>
  \<^verbatim>\<open>type PatternRow = { marks: number; count: string }\<close>
\<close>

record pattern_row =
  marks :: int
  count :: string

definition DEFAULT_PATTERN :: "pattern_row list" where
  "DEFAULT_PATTERN =
     [\<lparr>marks = 10, count = ''3''\<rparr>,
      \<lparr>marks = 5, count = ''4''\<rparr>,
      \<lparr>marks = 3, count = ''10''\<rparr>,
      \<lparr>marks = 2, count = ''5''\<rparr>,
      \<lparr>marks = 1, count = ''10''\<rparr>]"

text \<open>
  Characters are code units; the digits are \<^verbatim>\<open>0\<close> to \<^verbatim>\<open>9\<close> (48 to 57), the white
  space that \<^verbatim>\<open>parseInt\<close> and \<^verbatim>\<open>trim\<close> skip is tab, line feed, vertical tab, form
  feed, carriage return and space.
\<close>

definition isDigit :: "char \<Rightarrow> bool" where
  "isDigit c = (48 \<le> (of_char c :: nat) \<and> (of_char c :: nat) \<le> 57)"

definition isSpace :: "char \<Rightarrow> bool" where
  "isSpace c = ((of_char c :: nat) \<in> {9, 10, 11, 12, 13, 32})"

definition digit_value :: "char \<Rightarrow> nat" where
  "digit_value c = of_char c - 48"

definition digits_value :: "string \<Rightarrow> nat" where
  "digits_value ds = foldl (\<lambda>acc c. 10 * acc + digit_value c) 0 ds"

text \<open>
  \<^verbatim>\<open>parseInt(s, 10)\<close>: leading white space is skipped, one sign is read, then the
  longest run of decimal digits; with no digit the result is \<^verbatim>\<open>NaN\<close> (\<open>None\<close>).
  Numbers are the integers they denote (exact in a double below \<open>2^53\<close>).
\<close>

definition parseInt :: "string \<Rightarrow> int option" where
  "parseInt s =
     (let S = dropWhile isSpace s;
          sign = (if S \<noteq> [] \<and> hd S = CHR ''-'' then - 1 else 1);
          S' = (if S \<noteq> [] \<and> (hd S = CHR ''+'' \<or> hd S = CHR ''-'') then tl S else S);
          Z = takeWhile isDigit S'
      in if Z = [] then None else Some (sign * int (digits_value Z)))"

text \<open>
  \<^verbatim>\<open>parseInt(row.count || "0", 10) || 0\<close>: the empty string is falsy, and so are
  \<^verbatim>\<open>NaN\<close> and 0.
\<close>

definition count_number :: "pattern_row \<Rightarrow> int" where
  "count_number row =
     (case parseInt (if count row = [] then ''0'' else count row) of
        None \<Rightarrow> 0
      | Some n \<Rightarrow> (if n = 0 then 0 else n))"






text \<open>
  The part of \<^verbatim>\<open>ApiData\<close> and of the mock test JSON that \<open>handleGenerate\<close> reads.
\<close>

record api_data =
  summary :: "string option"
  key_topics :: "string list option"
  text' :: "string option"

record 'q mock_json =
  json_error :: "string option"
  total_marks :: int
  pattern_used :: "(int \<times> int) list"
  sections :: "'q list"

record 'q mock_state =
  patternRows :: "pattern_row list"
  loading :: bool
  error :: "string option"
  mockTest :: "'q mock_json option"

text \<open>
  \<^verbatim>\<open>a || b\<close> on optional strings: \<^verbatim>\<open>undefined\<close> and the empty string are falsy.
\<close>

definition truthy :: "string option \<Rightarrow> bool" where
  "truthy v = (case v of None \<Rightarrow> False | Some s \<Rightarrow> s \<noteq> [])"

definition or_string :: "string option \<Rightarrow> string \<Rightarrow> string" where
  "or_string v d = (case v of None \<Rightarrow> d | Some s \<Rightarrow> if s = [] then d else s)"

definition trim :: "string \<Rightarrow> string" where
  "trim s = rev (dropWhile isSpace (rev (dropWhile isSpace s)))"

text \<open>
  \<open>handleGenerate\<close> up to its \<^verbatim>\<open>await fetch\<close>:
  \<^verbatim>\<open>
  if (!apiData) return;
  const text = apiData.text || apiData.summary || "";
  if (!text.trim()) { Alert.alert("Missing text", "..."); return; }
  const patternPayload = patternRows
    .map((row) => ({ marks: row.marks, count: parseInt(row.count || "0", 10) || 0 }))
    .filter((p) => p.count > 0 && p.marks > 0);
  if (patternPayload.length === 0) { Alert.alert("Invalid pattern", "..."); return; }
  try { setLoading(true); setError(null); ... const res = await fetch(MOCK_TEST_URL, ...);
  \<close>
\<close>

definition handleGenerate_start ::
  "api_data option \<Rightarrow> 'q mock_state \<Rightarrow> 'q mock_state \<times> effect list \<times> bool" where
  "handleGenerate_start apiData' s =
     (case apiData' of
        None \<Rightarrow> (s, [], False)
      | Some d \<Rightarrow>
          (let text = or_string (text' d) (or_string (summary d) [])
           in if trim text = []
              then (s, [Alert ''Missing text'' ''No extracted PDF text found in apiData.''], False)
              else
                (let patternPayload =
                       filter (\<lambda>(m, c). c > 0 \<and> m > 0)
                         (map (\<lambda>row. (marks row, count_number row)) (patternRows s))
                 in if patternPayload = []
                    then (s, [Alert ''Invalid pattern''
                                ''Please enter at least one section with count > 0.''], False)
                    else (s\<lparr>loading := True, error := None\<rparr>, [Fetch MOCK_TEST_URL], True))))"

text \<open>
  The rest of \<open>handleGenerate\<close>; \<^verbatim>\<open>await res.json()\<close> throws on a body that is not
  JSON, before the status is looked at.
  \<^verbatim>\<open>
    const json = await res.json();
    if (!res.ok) {
      setError(json.error || `Mock test API error: ${res.status}`); setMockTest(null); return; }
    if (json.error) { setError(json.error); setMockTest(null); return; }
    setMockTest(json as MockTestResponse);
  } catch (e: any) { setError(e?.message || String(e)); setMockTest(null); }
  finally { setLoading(false); }
  \<close>
\<close>

definition caught :: "exn \<Rightarrow> 'q mock_state \<Rightarrow> 'q mock_state" where
  "caught e s = s\<lparr>error := Some (or_string (message e) (as_string e)), mockTest := None\<rparr>"

fun handleGenerate_body :: "'q mock_json fetch_result \<Rightarrow> 'q mock_state \<Rightarrow> 'q mock_state" where
  "handleGenerate_body (Threw e) s = caught e s"
| "handleGenerate_body (Response ok status (Inl e)) s = caught e s"
| "handleGenerate_body (Response ok status (Inr json)) s =
     (if \<not> ok
      then s\<lparr>error := Some (or_string (json_error json)
                               (''Mock test API error: '' @ String_of_nat status)),
             mockTest := None\<rparr>
      else if truthy (json_error json)
      then s\<lparr>error := json_error json, mockTest := None\<rparr>
      else s\<lparr>mockTest := Some json\<rparr>)"

definition handleGenerate_finish :: "'q mock_json fetch_result \<Rightarrow> 'q mock_state \<Rightarrow> 'q mock_state" where
  "handleGenerate_finish res s = (handleGenerate_body res s)\<lparr>loading := False\<rparr>"

definition handleGenerate ::
  "api_data option \<Rightarrow> 'q mock_json fetch_result \<Rightarrow> 'q mock_state \<Rightarrow> 'q mock_state \<times> effect list" where
  "handleGenerate apiData' res s =
     (let (s1, effects, started) = handleGenerate_start apiData' s
      in if started then (handleGenerate_finish res s1, effects) else (s1, effects))"

section \<open>Dashboard bar (app/dashboard/index.tsx)\<close>








section \<open>Example data\<close>

definition q1 :: question where
  "q1 = \<lparr>question = ''Q1'', options = [''A'', ''B''], answer = ''A'', explanation = None\<rparr>"

definition s_answered :: quiz_state where
  "s_answered = \<lparr>answers = [0 \<mapsto> ''B''], score = 0\<rparr>"

definition stats31 :: "string \<rightharpoonup> question_stats" where
  "stats31 = [''0'' \<mapsto> \<lparr>attempts = Some 3, correct = Some 1, skipped = None\<rparr>]"

definition pdf0 :: file_info where
  "pdf0 = \<lparr>uri = ''file:///notes.pdf'', name = ''notes.pdf'', size_bytes = 1024,
           mimeType = ''application/pdf'', fileObject = None\<rparr>"

definition ctx_with_material :: "(string, string) study_ctx" where
  "ctx_with_material =
     \<lparr>fileInfo = Some pdf0, uploading = False, apiData = Some ''old material'',
      videoResults = [''video''], videoLoading = False, videoError = Some ''Video API error: 500''\<rparr>"

definition home_uploading :: "(string, string) home" where
  "home_uploading =
     \<lparr>ctx = \<lparr>fileInfo = Some pdf0, uploading = True, apiData = None,
             videoResults = [], videoLoading = False, videoError = None\<rparr>,
      user = None, outstanding = 1\<rparr>"

definition network_error :: exn where
  "network_error = \<lparr>message = Some ''Network request failed'',
                     as_string = ''TypeError: Network request failed''\<rparr>"

definition api0 :: api_data where
  "api0 = \<lparr>summary = Some ''A summary'', key_topics = Some [''Topic''], text' = Some ''Some text''\<rparr>"

definition mock_json0 :: "string mock_json" where
  "mock_json0 = \<lparr>json_error = None, total_marks = 10, pattern_used = [(10, 1)], sections = [''Section A'']\<rparr>"

definition mock_shown :: "string mock_state" where
  "mock_shown = \<lparr>patternRows = DEFAULT_PATTERN, loading = False, error = None, mockTest = Some mock_json0\<rparr>"


section \<open>The quiz score\<close>

lemma reduce_from_count:
  "reduce_from (\<lambda>acc q idx. if A idx = Some (answer q) then acc + 1 else acc) acc k quiz =
     acc + length (filter (\<lambda>i. A (k + i) = Some (answer (quiz ! i))) [0..<length quiz])"
proof (induction quiz arbitrary: acc k)
  case Nil
  show ?case by simp
next
  case (Cons q quiz)
  have upt: "[0..<length (q # quiz)] = 0 # map Suc [0..<length quiz]"
    by (simp add: upt_conv_Cons map_Suc_upt del: upt_Suc)
  show ?case
    unfolding upt by (simp add: Cons.IH filter_map comp_def)
qed

lemma calculateScore_filter:
  "calculateScore quiz A = length (filter (\<lambda>i. A i = Some (answer (quiz ! i))) [0..<length quiz])"
  by (simp add: calculateScore_def reduce_def reduce_from_count)

lemma calculateScore_card:
  "calculateScore quiz A = card {i. i < length quiz \<and> A i = Some (answer (quiz ! i))}"
proof -
  have "{i. i < length quiz \<and> A i = Some (answer (quiz ! i))}
      = set (filter (\<lambda>i. A i = Some (answer (quiz ! i))) [0..<length quiz])"
    by auto
  then show ?thesis
    by (simp only: calculateScore_filter distinct_card[OF distinct_filter[OF distinct_upt]])
qed

text \<open>
  C1. For every quiz and every answer mapping, the score is the number of indices of
  the quiz whose recorded selection is the question's canonical answer; every index
  that is counted has a recorded selection, so an unanswered index adds nothing.
\<close>

theorem calculateScore_counts_correct_selections:
  "calculateScore quiz A = card {i. i < length quiz \<and> A i = Some (answer (quiz ! i))}
   \<and> {i. i < length quiz \<and> A i = Some (answer (quiz ! i))} \<subseteq> dom A"
proof
  show "calculateScore quiz A = card {i. i < length quiz \<and> A i = Some (answer (quiz ! i))}"
    by (rule calculateScore_card)
  show "{i. i < length quiz \<and> A i = Some (answer (quiz ! i))} \<subseteq> dom A"
    by auto
qed

text \<open>
  C3. Adding a correct answer never lowers the score: when index \<open>i\<close> of the quiz is
  unanswered in \<open>A\<close> and \<open>A'\<close> is \<open>A\<close> with \<open>i\<close> set to the canonical answer of
  question \<open>i\<close>, the score of \<open>A'\<close> is at least the score of \<open>A\<close>.
\<close>

theorem calculateScore_monotone:
  assumes "i < length quiz" and "A i = None"
  shows "calculateScore quiz A \<le> calculateScore quiz (A(i \<mapsto> answer (quiz ! i)))"
proof -
  let ?A' = "A(i \<mapsto> answer (quiz ! i))"
  have sub: "{j. j < length quiz \<and> A j = Some (answer (quiz ! j))}
           \<subseteq> {j. j < length quiz \<and> ?A' j = Some (answer (quiz ! j))}"
    using assms(2) by auto
  have fin: "finite {j. j < length quiz \<and> ?A' j = Some (answer (quiz ! j))}"
    by simp
  show ?thesis
    unfolding calculateScore_card by (rule card_mono[OF fin sub])
qed

theorem calculateScore_monotone_witness:
  "calculateScore [q1] Map.empty \<le> calculateScore [q1] [0 \<mapsto> ''A''] \<and>
   calculateScore [q1] Map.empty = 0 \<and> calculateScore [q1] [0 \<mapsto> ''A''] = 1"
proof -
  have a: "(0::nat) < length [q1]" by simp
  have b: "(Map.empty :: answers) 0 = None" by simp
  have "calculateScore [q1] Map.empty \<le> calculateScore [q1] (Map.empty(0 \<mapsto> answer ([q1] ! 0)))"
    by (rule calculateScore_monotone[OF a b])
  moreover have "answer ([q1] ! 0) = ''A''" by (simp add: q1_def)
  moreover have "calculateScore [q1] Map.empty = 0"
    by (simp add: calculateScore_def reduce_def)
  moreover have "calculateScore [q1] [0 \<mapsto> ''A''] = 1"
    by (simp add: calculateScore_def reduce_def q1_def)
  ultimately show ?thesis by simp
qed

text \<open>
  C5. Selecting an option for a question that already has a recorded selection
  replaces the selection at that index, keeps the selection of every other index, sets
  the score to the score of the new mapping, and calls the score setter exactly once.
\<close>

theorem selectOption_overwrites_and_rescores_once:
  assumes "answers s qIdx = Some old"
  shows "answers (selectOption quiz qIdx opt s) qIdx = Some opt
       \<and> (\<forall>j. j \<noteq> qIdx \<longrightarrow> answers (selectOption quiz qIdx opt s) j = answers s j)
       \<and> score (selectOption quiz qIdx opt s) = calculateScore quiz (answers (selectOption quiz qIdx opt s))
       \<and> length (filter is_SetScore (selectOption_calls quiz qIdx opt s)) = 1"
  by (simp add: selectOption_def selectOption_calls_def Let_def)

theorem selectOption_overwrites_witness:
  "answers s_answered 0 = Some ''B''
   \<and> answers (selectOption [q1] 0 ''A'' s_answered) 0 = Some ''A''
   \<and> score (selectOption [q1] 0 ''A'' s_answered) = 1"
proof -
  have h: "answers s_answered 0 = Some ''B''" by (simp add: s_answered_def)
  from selectOption_overwrites_and_rescores_once[OF h, of "[q1]" "''A''"]
  have "answers (selectOption [q1] 0 ''A'' s_answered) 0 = Some ''A''"
    and sc: "score (selectOption [q1] 0 ''A'' s_answered) =
      calculateScore [q1] (answers (selectOption [q1] 0 ''A'' s_answered))"
    by simp_all
  moreover have "calculateScore [q1] (answers (selectOption [q1] 0 ''A'' s_answered)) = 1"
    by (simp add: selectOption_def selectOption_calls_def Let_def calculateScore_def reduce_def q1_def s_answered_def)
  ultimately show ?thesis using h by simp
qed

section \<open>The revision selector\<close>

lemma revision_visit_eq:
  "idx < n \<Longrightarrow>
   revision_visit n pq acc q idx = (if needs_revision pq idx then acc @ [idx] else acc)"
  by (auto simp add: revision_visit_def needs_revision_def flagged_by_spec_def Let_def
      split: option.splits)

lemma reduce_from_revision_visit:
  "k + length xs \<le> n \<Longrightarrow>
   reduce_from (revision_visit n pq) acc k xs = acc @ filter (needs_revision pq) [k..<k + length xs]"
proof (induction xs arbitrary: acc k)
  case Nil
  show ?case by simp
next
  case (Cons x xs)
  have k: "k < n" and rest: "Suc k + length xs \<le> n"
    using Cons.prems by simp_all
  have upt: "[k..<k + length (x # xs)] = k # [Suc k..<Suc k + length xs]"
    by (simp add: upt_conv_Cons del: upt_Suc)
  show ?case
    unfolding upt by (simp add: Cons.IH[OF rest] revision_visit_eq[OF k])
qed

lemma revisionIndices_filter:
  "revisionIndices allQuiz pq = filter (needs_revision pq) [0..<length allQuiz]"
  by (simp add: revisionIndices_def reduce_def reduce_from_revision_visit)

text \<open>
  C2. For every index \<open>i\<close> of the quiz that has per-question statistics, with
  \<open>attempts\<close> and \<open>correct\<close> the two counters as the code reads them (0 when absent):
  \<open>i\<close> is among the revision indices exactly when \<open>attempts \<ge> 1\<close> and
  \<open>correct = 0\<close>, or \<open>attempts \<ge> 3\<close> and \<open>correct / attempts < 0.5\<close>; with
  \<open>attempts = 0\<close> it is not among them; with \<open>attempts = 3\<close> and \<open>correct = 1\<close> it is.
\<close>

theorem revision_flag_iff:
  assumes "i < length allQuiz" and "perQuestionStats (String_of_nat i) = Some st"
  shows "(i \<in> set (revisionIndices allQuiz perQuestionStats)) =
           ((nullish_or (attempts st) 0 \<ge> 1 \<and> nullish_or (correct st) 0 = 0) \<or>
            (nullish_or (attempts st) 0 \<ge> 3 \<and>
             real_of_int (nullish_or (correct st) 0) / real_of_int (nullish_or (attempts st) 0) < 0.5))
       \<and> (nullish_or (attempts st) 0 = 0 \<longrightarrow> i \<notin> set (revisionIndices allQuiz perQuestionStats))
       \<and> (attempts st = Some 3 \<and> correct st = Some 1 \<longrightarrow> i \<in> set (revisionIndices allQuiz perQuestionStats))"
  using assms
  by (auto simp add: revisionIndices_filter needs_revision_def flagged_by_spec_def nullish_or_def)

theorem revision_flag_witness:
  "0 \<in> set (revisionIndices [q1] stats31) \<and> revisionIndices [q1] stats31 = [0]"
proof -
  have a: "(0::nat) < length [q1]" by simp
  have s0: "String_of_nat 0 = ''0''" by code_simp
  have b: "stats31 (String_of_nat 0) = Some \<lparr>attempts = Some 3, correct = Some 1, skipped = None\<rparr>"
    by (simp add: s0 stats31_def)
  note inst = revision_flag_iff[where i = 0 and allQuiz = "[q1]" and perQuestionStats = stats31, OF a b]
  from inst have "attempts \<lparr>attempts = Some 3, correct = Some 1, skipped = None\<rparr> = Some 3
      \<and> correct \<lparr>attempts = Some 3, correct = Some 1, skipped = None\<rparr> = Some 1
      \<longrightarrow> 0 \<in> set (revisionIndices [q1] stats31)"
    by (elim conjE)
  then have "0 \<in> set (revisionIndices [q1] stats31)" by simp
  moreover have "revisionIndices [q1] stats31 = [0]"
    by code_simp
  ultimately show ?thesis by simp
qed

lemma sorted_wrt_filter_upt: "sorted_wrt (<) (filter P [m..<n])"
  by (rule sorted_wrt_filter) (simp add: sorted_wrt_upt)

lemma map_at_index_upt: "map (at_index xs) [0..<length xs] = map Some xs"
  by (rule nth_equalityI) (simp_all add: at_index_def)

text \<open>
  C8. The revision indices are strictly increasing and are indices of the quiz, and the
  revision questions are a subsequence of the quiz in its original order.
\<close>

theorem revisionIndices_increasing_subsequence:
  "sorted_wrt (<) (revisionIndices allQuiz perQuestionStats)
   \<and> set (revisionIndices allQuiz perQuestionStats) \<subseteq> {0..<length allQuiz}
   \<and> subseq (revisionQuiz allQuiz perQuestionStats) (map Some allQuiz)"
proof (intro conjI)
  show "sorted_wrt (<) (revisionIndices allQuiz perQuestionStats)"
    unfolding revisionIndices_filter by (rule sorted_wrt_filter_upt)
  show "set (revisionIndices allQuiz perQuestionStats) \<subseteq> {0..<length allQuiz}"
    unfolding revisionIndices_filter by auto
  have "subseq (map (at_index allQuiz) (filter (needs_revision perQuestionStats) [0..<length allQuiz]))
               (map (at_index allQuiz) [0..<length allQuiz])"
    by (rule subseq_map) (rule subseq_filter_left)
  then show "subseq (revisionQuiz allQuiz perQuestionStats) (map Some allQuiz)"
    by (simp only: revisionQuiz_def revisionIndices_filter map_at_index_upt)
qed

section \<open>The held study material\<close>

text \<open>
  C4. The context holds the material in one nullable slot. Removing the selected file
  sets the material to null and clears the video results and the video error; an
  upload that succeeds replaces the material by the new JSON, whatever was held, and
  clears the video results and the video error.
\<close>

theorem material_replaced_or_cleared:
  assumes "fileInfo c \<noteq> None"
  shows "apiData (onRemoveFile c) = None \<and> videoResults (onRemoveFile c) = []
       \<and> videoError (onRemoveFile c) = None \<and> fileInfo (onRemoveFile c) = None
       \<and> apiData (fst (upload user' (Requested (Response True status (Inr json))) c)) = Some json
       \<and> videoResults (fst (upload user' (Requested (Response True status (Inr json))) c)) = []
       \<and> videoError (fst (upload user' (Requested (Response True status (Inr json))) c)) = None"
  using assms
  by (auto simp add: onRemoveFile_def upload_def upload_start_def)

theorem material_replaced_or_cleared_witness:
  "fileInfo ctx_with_material \<noteq> None
   \<and> apiData (onRemoveFile ctx_with_material) = None
   \<and> apiData (fst (upload (Some ''u1'') (Requested (Response True 200 (Inr ''new material''))) ctx_with_material))
       = Some ''new material''
   \<and> videoResults (fst (upload (Some ''u1'') (Requested (Response True 200 (Inr ''new material''))) ctx_with_material)) = []"
proof -
  have h: "fileInfo ctx_with_material \<noteq> None" by (simp add: ctx_with_material_def)
  from material_replaced_or_cleared[OF h, of "Some ''u1''" 200 "''new material''"] h
  show ?thesis by simp
qed

section \<open>Failed requests\<close>

lemma started_api0: "handleGenerate_start (Some api0) mock_shown =
   (mock_shown\<lparr>loading := True, error := None\<rparr>, [Fetch MOCK_TEST_URL], True)"
  by code_simp

text \<open>
  C6, as stated, fails on the mock test screen: a request that throws makes
  \<open>handleGenerate\<close> reset the mock test that was on screen to null.
\<close>

theorem failed_generate_clears_mock_test:
  "request_failed (Threw network_error :: string mock_json fetch_result)
   \<and> mockTest mock_shown = Some mock_json0
   \<and> mockTest (fst (handleGenerate (Some api0) (Threw network_error) mock_shown)) = None"
  by code_simp

lemma upload_body_failed:
  "request_failed res \<Longrightarrow> fst (upload_body res c) = c \<and> (\<exists>title msg. snd (upload_body res c) = [Alert title msg])"
  by (induction res c rule: upload_body.induct) simp_all

lemma handleGenerate_body_failed:
  assumes "request_failed res"
  shows "\<exists>msg. handleGenerate_body res s = s\<lparr>error := Some msg, mockTest := None\<rparr>"
proof (cases res)
  case (Threw e)
  then show ?thesis by (simp add: caught_def) (rule exI, rule refl)
next
  case (Response ok status body)
  show ?thesis
  proof (cases body)
    case (Inl e)
    with Response show ?thesis by (simp add: caught_def) (rule exI, rule refl)
  next
    case (Inr json)
    with Response assms have "\<not> ok" by simp
    with Response Inr show ?thesis by simp (rule exI, rule refl)
  qed
qed

text \<open>
  C6, amended. When the request fails (an exception, a body that is not JSON, a status
  outside 2xx): \<open>upload\<close>, started from an enabled button, shows an alert and leaves
  the whole context as it was, the held material and the video results included;
  \<open>handleGenerate\<close>, once it has issued its request, stores an error string, leaves
  the pattern rows as they were and resets the rendered mock test to null. Neither
  handler issues more than one request, so nothing is retried.
\<close>

theorem failed_request_handling:
  assumes "upload_failed outcome" and "request_failed res'"
    and "\<not> upload_disabled c" and "handleGenerate_start api s = (s1, effects, True)"
  shows "fst (upload u outcome c) = c
       \<and> (\<exists>title msg. Alert title msg \<in> set (snd (upload u outcome c)))
       \<and> length (filter is_Fetch (snd (upload u outcome c))) \<le> 1
       \<and> (\<exists>msg. fst (handleGenerate api res' s) = s\<lparr>loading := False, error := Some msg, mockTest := None\<rparr>)
       \<and> length (filter is_Fetch (snd (handleGenerate api res' s))) = 1"
proof -
  have c: "fileInfo c \<noteq> None" "\<not> uploading c"
    using assms(3) by (simp_all add: upload_disabled_def)
  let ?pre = "(if u = None
               then [Alert ''Not logged in'' ''We couldn't find your account. Please log in again.'']
               else []) @ [SetUploading True]"
  have st: "upload_start u c = (c\<lparr>uploading := True\<rparr>, ?pre, True)"
    using c by (simp add: upload_start_def)
  have fin: "\<exists>title msg post. upload_finish outcome (c\<lparr>uploading := True\<rparr>) = (c, post)
               \<and> Alert title msg \<in> set post \<and> length (filter is_Fetch post) \<le> 1"
  proof (cases outcome)
    case (BlobThrew err)
    then show ?thesis using c by simp
  next
    case (Requested res)
    then have "request_failed res" using assms(1) by simp
    then obtain title msg where
      "upload_body res (c\<lparr>uploading := True\<rparr>) = (c\<lparr>uploading := True\<rparr>, [Alert title msg])"
      using upload_body_failed[of res "c\<lparr>uploading := True\<rparr>"]
      by (cases "upload_body res (c\<lparr>uploading := True\<rparr>)") auto
    with Requested show ?thesis using c by simp
  qed
  then obtain title msg post where post:
    "upload_finish outcome (c\<lparr>uploading := True\<rparr>) = (c, post)"
    "Alert title msg \<in> set post" "length (filter is_Fetch post) \<le> 1"
    by blast
  have up: "upload u outcome c = (c, ?pre @ post)"
    by (simp only: upload_def st post(1) Let_def prod.case if_True)
  have s1: "s1 = s\<lparr>loading := True, error := None\<rparr>" and eff: "effects = [Fetch MOCK_TEST_URL]"
    using assms(4)
    by (auto simp add: handleGenerate_start_def Let_def split: option.splits if_splits)
  obtain m where hb: "handleGenerate_body res' s1 = s1\<lparr>error := Some m, mockTest := None\<rparr>"
    using handleGenerate_body_failed[OF assms(2)] by blast
  have hg: "handleGenerate api res' s =
      (s\<lparr>loading := False, error := Some m, mockTest := None\<rparr>, [Fetch MOCK_TEST_URL])"
    by (simp add: handleGenerate_def assms(4) handleGenerate_finish_def hb eff) (simp add: s1)
  have "Alert title msg \<in> set (snd (upload u outcome c))"
    using post(2) by (simp only: up snd_conv set_append Un_iff) simp
  moreover have "length (filter is_Fetch (snd (upload u outcome c))) \<le> 1"
    using post(3) by (simp add: up)
  ultimately show ?thesis
    by (auto simp add: up hg simp del: filter_append)
qed

theorem failed_request_handling_witness:
  "upload_failed (Requested (Response False 500 (Inl network_error)) :: string upload_outcome)
   \<and> request_failed (Threw network_error :: string mock_json fetch_result)
   \<and> \<not> upload_disabled ctx_with_material
   \<and> fst (upload None (Requested (Response False 500 (Inl network_error))) ctx_with_material) = ctx_with_material
   \<and> (\<exists>msg. fst (handleGenerate (Some api0) (Threw network_error) mock_shown)
              = mock_shown\<lparr>loading := False, error := Some msg, mockTest := None\<rparr>)"
proof -
  have a: "upload_failed (Requested (Response False 500 (Inl network_error)) :: string upload_outcome)" by simp
  have b: "request_failed (Threw network_error :: string mock_json fetch_result)" by simp
  have c: "\<not> upload_disabled ctx_with_material"
    by (simp add: upload_disabled_def ctx_with_material_def)
  from failed_request_handling[OF a b c started_api0, of None] a b c
  show ?thesis by simp
qed

section \<open>One upload at a time\<close>

lemma upload_body_fetches: "filter is_Fetch (snd (upload_body res c)) = []"
  by (induction res c rule: upload_body.induct) simp_all

lemma upload_finish_resets: "uploading (fst (upload_finish outcome c)) = False"
  by (cases outcome) (simp_all split: prod.splits)

lemma upload_finish_last: "\<exists>pre. snd (upload_finish outcome c) = pre @ [SetUploading False]"
  by (cases outcome) (simp_all split: prod.splits)

lemma upload_finish_fetches: "length (filter is_Fetch (snd (upload_finish outcome c))) \<le> 1"
proof (cases outcome)
  case (BlobThrew err)
  then show ?thesis by simp
next
  case (Requested res)
  obtain c' effects where b: "upload_body res c = (c', effects)"
    by (cases "upload_body res c")
  have "filter is_Fetch effects = []"
    using upload_body_fetches[of res c] b by simp
  with Requested b show ?thesis by simp
qed

lemma upload_start_sets:
  "upload_start u c = (c', effects, True) \<Longrightarrow>
   uploading c' \<and> (\<exists>pre. effects = pre @ [SetUploading True]) \<and> filter is_Fetch effects = []"
  by (auto simp add: upload_start_def split: if_splits)

lemma upload_start_not_started:
  "upload_start u c = (c', effects, False) \<Longrightarrow> c' = c"
  by (auto simp add: upload_start_def split: if_splits)

lemma pickFile_uploading: "uploading (fst (pickFile r c)) = uploading c"
  by (cases r) simp_all

lemma home_step_invariant:
  assumes "home_step h h'" and "outstanding h = (if uploading (ctx h) then 1 else 0)"
  shows "outstanding h' = (if uploading (ctx h') then 1 else 0)"
  using assms
proof (induction rule: home_step.induct)
  case (press_upload h c' effects started)
  then show ?case
    by (cases started) (auto simp add: upload_disabled_def dest: upload_start_sets upload_start_not_started)
next
  case (upload_ends h outcome)
  then show ?case by (auto simp add: upload_finish_resets split: if_splits)
next
  case (press_pick h r)
  then show ?case by (simp add: pickFile_uploading)
next
  case (press_remove h)
  then show ?case by (simp add: onRemoveFile_def)
next
  case (set_user h u)
  then show ?case by simp
qed

lemma reachable_invariant:
  "reachable h \<Longrightarrow> outstanding h = (if uploading (ctx h) then 1 else 0)"
proof (induction rule: reachable.induct)
  case start
  show ?case by (simp add: initial_ctx_def)
next
  case (step h h')
  then show ?case by (simp only: home_step_invariant)
qed

text \<open>
  C7. In every reachable state of the home screen at most one upload is outstanding,
  and one is outstanding exactly when \<open>uploading\<close> is true; the upload button is then
  disabled. A started upload sets \<open>uploading\<close> to true as the last thing before its
  \<^verbatim>\<open>try\<close> block and has issued no request by then; the rest of the handler,
  whatever its outcome, issues at most one request and sets \<open>uploading\<close> to false as
  the last thing it does.
\<close>

theorem no_second_upload_while_outstanding:
  assumes "reachable h"
  shows "outstanding h \<le> 1
       \<and> uploading (ctx h) = (outstanding h = 1)
       \<and> (outstanding h = 1 \<longrightarrow> upload_disabled (ctx h))
       \<and> (\<forall>c' effects. upload_start (user h) (ctx h) = (c', effects, True) \<longrightarrow>
             uploading c' \<and> (\<exists>pre. effects = pre @ [SetUploading True]) \<and> filter is_Fetch effects = [])
       \<and> (\<forall>outcome. \<not> uploading (fst (upload_finish outcome (ctx h)))
             \<and> (\<exists>pre. snd (upload_finish outcome (ctx h)) = pre @ [SetUploading False])
             \<and> length (filter is_Fetch (snd (upload_finish outcome (ctx h)))) \<le> 1)"
proof -
  have inv: "outstanding h = (if uploading (ctx h) then 1 else 0)"
    by (rule reachable_invariant[OF assms])
  show ?thesis
  proof (intro conjI allI impI)
    show "outstanding h \<le> 1" using inv by simp
    show "uploading (ctx h) = (outstanding h = 1)" using inv by simp
    show "upload_disabled (ctx h)" if "outstanding h = 1"
    proof -
      have "uploading (ctx h)"
        using that inv by (cases "uploading (ctx h)") simp_all
      then show ?thesis by (simp add: upload_disabled_def)
    qed
    show "uploading c'" if "upload_start (user h) (ctx h) = (c', effects, True)" for c' effects
      using upload_start_sets[OF that] by simp
    show "\<exists>pre. effects = pre @ [SetUploading True]"
      if "upload_start (user h) (ctx h) = (c', effects, True)" for c' effects
      using upload_start_sets[OF that] by simp
    show "filter is_Fetch effects = []"
      if "upload_start (user h) (ctx h) = (c', effects, True)" for c' effects
      using upload_start_sets[OF that] by simp
    show "\<not> uploading (fst (upload_finish outcome (ctx h)))" for outcome
      by (simp add: upload_finish_resets)
    show "\<exists>pre. snd (upload_finish outcome (ctx h)) = pre @ [SetUploading False]" for outcome
      by (rule upload_finish_last)
    show "length (filter is_Fetch (snd (upload_finish outcome (ctx h)))) \<le> 1" for outcome
      by (rule upload_finish_fetches)
  qed
qed

lemma reachable_home_uploading: "reachable home_uploading"
proof -
  let ?h0 = "\<lparr>ctx = initial_ctx, user = None, outstanding = 0\<rparr> :: (string, string) home"
  let ?h1 = "?h0\<lparr>ctx := fst (pickFile (Picked pdf0) (ctx ?h0))\<rparr>"
  have r0: "reachable ?h0" by (rule reachable.start)
  have "home_step ?h0 ?h1"
    by (rule home_step.press_pick) (simp add: initial_ctx_def)
  with r0 have r1: "reachable ?h1" by (rule reachable.step)
  have st: "upload_start (user ?h1) (ctx ?h1) =
     ((ctx ?h1)\<lparr>uploading := True\<rparr>,
      [Alert ''Not logged in'' ''We couldn't find your account. Please log in again.'',
       SetUploading True], True)"
    by (simp add: upload_start_def initial_ctx_def)
  have "home_step ?h1 (?h1\<lparr>ctx := (ctx ?h1)\<lparr>uploading := True\<rparr>,
                       outstanding := outstanding ?h1 + (if True then 1 else 0)\<rparr>)"
    by (rule home_step.press_upload[OF _ st]) (simp add: upload_disabled_def initial_ctx_def)
  with r1 have "reachable (?h1\<lparr>ctx := (ctx ?h1)\<lparr>uploading := True\<rparr>,
                       outstanding := outstanding ?h1 + (if True then 1 else 0)\<rparr>)"
    by (rule reachable.step)
  then show ?thesis by (simp add: home_uploading_def initial_ctx_def)
qed

theorem no_second_upload_witness:
  "reachable home_uploading \<and> outstanding home_uploading = 1 \<and> upload_disabled (ctx home_uploading)
   \<and> \<not> uploading (fst (upload_finish (Requested (Threw network_error)) (ctx home_uploading)))"
proof -
  have r: "reachable home_uploading" by (rule reachable_home_uploading)
  have o: "outstanding home_uploading = 1" by (simp add: home_uploading_def)
  from no_second_upload_while_outstanding[OF r] o r
  show ?thesis by simp
qed


section \<open>The mock test builder\<close>
















section \<open>The dashboard bar\<close>



end
